theory Spec2Isabelle
  imports Main "HOL-Library.Sublist"
begin

section \<open>The checklist submission endpoint (main.go)\<close>

text \<open>
  A shallow embedding of \<^verbatim>\<open>checklistHandler\<close> and its helpers. The handler is
  written as a function from the server state and the request to the response and the
  new server state. Everything the handler gets from outside the repository is explicit:
  \<^item> the request body is the first JSON value of the stream, already scanned
    (\<open>None\<close> when the scanner reports a syntax or read error);
  \<^item> \<^verbatim>\<open>time.Parse\<close>, the readings of \<^verbatim>\<open>time.Now\<close> and the failures of the
    database calls are fields of an environment record, and every theorem holds for
    every environment;
  \<^item> the database is a pair of tables with their two identifier sequences, and a
    transaction collects the rows it inserted until it commits.
  Logging (\<^verbatim>\<open>log.Printf\<close>) is not modelled.
\<close>

subsection \<open>The payload types\<close>

record Answer =
  Key :: string
  Label :: string
  Value :: "string option"
  Comment :: "string option"

record Checklist =
  ChildName :: "string option"
  Date :: "string option"
  Specialist :: "string option"
  CreatedAt :: "string option"
  Answers :: "Answer list"

text \<open>The zero values of the two structs: what \<^verbatim>\<open>var in Checklist\<close> holds.\<close>

definition zeroAnswer :: Answer where
  "zeroAnswer = \<lparr>Key = [], Label = [], Value = None, Comment = None\<rparr>"

definition zeroChecklist :: Checklist where
  "zeroChecklist =
     \<lparr>ChildName = None, Date = None, Specialist = None, CreatedAt = None, Answers = []\<rparr>"

subsection \<open>JSON values and decoding into the structs\<close>

text \<open>
  A number keeps the text of its literal: no field of the payload is numeric, so the
  decoder never reads it. An object keeps its members in the order of the text.
\<close>

datatype json =
    JNull
  | JBool bool
  | JNumber string
  | JString string
  | JArray "json list"
  | JObject "(string \<times> json) list"

datatype decode_error = SyntaxError | UnknownField string | UnmarshalTypeError

text \<open>
  encoding/json matches a member name to a field by its exact name first and then by
  its folded name: ASCII letters in upper case, and the two runes outside ASCII whose
  fold set holds an ASCII letter, the Kelvin sign (U+212A, bytes E2 84 AA) and the long
  s (U+017F, bytes C5 BF). Strings are byte sequences in UTF-8, as in Go.
\<close>

definition upperByte :: "char \<Rightarrow> char" where
  "upperByte c =
     (case map_of (zip ''abcdefghijklmnopqrstuvwxyz'' ''ABCDEFGHIJKLMNOPQRSTUVWXYZ'') c of
        None \<Rightarrow> c
      | Some u \<Rightarrow> u)"

fun foldName :: "string \<Rightarrow> string" where
  "foldName [] = []"
| "foldName (c # cs) =
     (if prefix [CHR 0xE2, CHR 0x84, CHR 0xAA] (c # cs) then CHR ''K'' # foldName (drop 2 cs)
      else if prefix [CHR 0xC5, CHR 0xBF] (c # cs) then CHR ''S'' # foldName (drop 1 cs)
      else upperByte c # foldName cs)"

definition lookupField :: "(string \<times> 'f) list \<Rightarrow> string \<Rightarrow> 'f option" where
  "lookupField fs k =
     (case map_of fs k of
        Some f \<Rightarrow> Some f
      | None \<Rightarrow> map_of (map (\<lambda>(n, f). (foldName n, f)) fs) (foldName k))"

datatype answer_field = F_key | F_label | F_value | F_comment

datatype checklist_field = F_childName | F_date | F_specialist | F_createdAt | F_answers

text \<open>The json tags of the two structs.\<close>

definition answerFields :: "(string \<times> answer_field) list" where
  "answerFields =
     [(''key'', F_key), (''label'', F_label), (''value'', F_value), (''comment'', F_comment)]"

definition checklistFields :: "(string \<times> checklist_field) list" where
  "checklistFields =
     [(''childName'', F_childName), (''date'', F_date), (''specialist'', F_specialist),
      (''createdAt'', F_createdAt), (''answers'', F_answers)]"

text \<open>
  Decoding a value into a field that already holds \<open>cur\<close>. A JSON null leaves a
  \<^verbatim>\<open>string\<close> as it is and sets a \<^verbatim>\<open>*string\<close> to nil; anything but a string or
  null is a type error.
\<close>

fun decodeString :: "string \<Rightarrow> json \<Rightarrow> decode_error + string" where
  "decodeString cur JNull = Inr cur"
| "decodeString cur (JString s) = Inr s"
| "decodeString cur _ = Inl UnmarshalTypeError"

fun decodeStringPtr :: "string option \<Rightarrow> json \<Rightarrow> decode_error + string option" where
  "decodeStringPtr cur JNull = Inr None"
| "decodeStringPtr cur (JString s) = Inr (Some s)"
| "decodeStringPtr cur _ = Inl UnmarshalTypeError"

text \<open>
  One member of an answer object. With \<^verbatim>\<open>DisallowUnknownFields\<close> a name that matches
  no field is an error.
\<close>

definition decodeAnswerMember :: "Answer \<Rightarrow> string \<Rightarrow> json \<Rightarrow> decode_error + Answer" where
  "decodeAnswerMember a k v =
     (case lookupField answerFields k of
        None \<Rightarrow> Inl (UnknownField k)
      | Some F_key \<Rightarrow>
          (case decodeString (Key a) v of Inl e \<Rightarrow> Inl e | Inr s \<Rightarrow> Inr (a\<lparr>Key := s\<rparr>))
      | Some F_label \<Rightarrow>
          (case decodeString (Label a) v of Inl e \<Rightarrow> Inl e | Inr s \<Rightarrow> Inr (a\<lparr>Label := s\<rparr>))
      | Some F_value \<Rightarrow>
          (case decodeStringPtr (Value a) v of Inl e \<Rightarrow> Inl e | Inr s \<Rightarrow> Inr (a\<lparr>Value := s\<rparr>))
      | Some F_comment \<Rightarrow>
          (case decodeStringPtr (Comment a) v of
             Inl e \<Rightarrow> Inl e
           | Inr s \<Rightarrow> Inr (a\<lparr>Comment := s\<rparr>)))"

fun decodeAnswerMembers :: "Answer \<Rightarrow> (string \<times> json) list \<Rightarrow> decode_error + Answer" where
  "decodeAnswerMembers a [] = Inr a"
| "decodeAnswerMembers a ((k, v) # kvs) =
     (case decodeAnswerMember a k v of
        Inl e \<Rightarrow> Inl e
      | Inr a' \<Rightarrow> decodeAnswerMembers a' kvs)"

fun decodeAnswer :: "Answer \<Rightarrow> json \<Rightarrow> decode_error + Answer" where
  "decodeAnswer cur JNull = Inr cur"
| "decodeAnswer cur (JObject kvs) = decodeAnswerMembers cur kvs"
| "decodeAnswer cur _ = Inl UnmarshalTypeError"

text \<open>
  An array into \<^verbatim>\<open>[]Answer\<close>: the slice is reset and one element is appended for
  each element of the array, in order.
\<close>

fun decodeAnswerElems :: "json list \<Rightarrow> decode_error + Answer list" where
  "decodeAnswerElems [] = Inr []"
| "decodeAnswerElems (x # xs) =
     (case decodeAnswer zeroAnswer x of
        Inl e \<Rightarrow> Inl e
      | Inr a \<Rightarrow>
          (case decodeAnswerElems xs of Inl e \<Rightarrow> Inl e | Inr ans \<Rightarrow> Inr (a # ans)))"

fun decodeAnswers :: "json \<Rightarrow> decode_error + Answer list" where
  "decodeAnswers JNull = Inr []"
| "decodeAnswers (JArray xs) = decodeAnswerElems xs"
| "decodeAnswers _ = Inl UnmarshalTypeError"

definition decodeChecklistMember ::
    "Checklist \<Rightarrow> string \<Rightarrow> json \<Rightarrow> decode_error + Checklist" where
  "decodeChecklistMember c k v =
     (case lookupField checklistFields k of
        None \<Rightarrow> Inl (UnknownField k)
      | Some F_childName \<Rightarrow>
          (case decodeStringPtr (ChildName c) v of
             Inl e \<Rightarrow> Inl e
           | Inr s \<Rightarrow> Inr (c\<lparr>ChildName := s\<rparr>))
      | Some F_date \<Rightarrow>
          (case decodeStringPtr (Date c) v of Inl e \<Rightarrow> Inl e | Inr s \<Rightarrow> Inr (c\<lparr>Date := s\<rparr>))
      | Some F_specialist \<Rightarrow>
          (case decodeStringPtr (Specialist c) v of
             Inl e \<Rightarrow> Inl e
           | Inr s \<Rightarrow> Inr (c\<lparr>Specialist := s\<rparr>))
      | Some F_createdAt \<Rightarrow>
          (case decodeStringPtr (CreatedAt c) v of
             Inl e \<Rightarrow> Inl e
           | Inr s \<Rightarrow> Inr (c\<lparr>CreatedAt := s\<rparr>))
      | Some F_answers \<Rightarrow>
          (case decodeAnswers v of Inl e \<Rightarrow> Inl e | Inr ans \<Rightarrow> Inr (c\<lparr>Answers := ans\<rparr>)))"

fun decodeChecklistMembers ::
    "Checklist \<Rightarrow> (string \<times> json) list \<Rightarrow> decode_error + Checklist" where
  "decodeChecklistMembers c [] = Inr c"
| "decodeChecklistMembers c ((k, v) # kvs) =
     (case decodeChecklistMember c k v of
        Inl e \<Rightarrow> Inl e
      | Inr c' \<Rightarrow> decodeChecklistMembers c' kvs)"

fun decodeChecklist :: "Checklist \<Rightarrow> json \<Rightarrow> decode_error + Checklist" where
  "decodeChecklist cur JNull = Inr cur"
| "decodeChecklist cur (JObject kvs) = decodeChecklistMembers cur kvs"
| "decodeChecklist cur _ = Inl UnmarshalTypeError"

text \<open>\<^verbatim>\<open>dec.Decode(&in)\<close> on a fresh \<^verbatim>\<open>in\<close> (lines 124-127).\<close>

definition Decode :: "json option \<Rightarrow> decode_error + Checklist" where
  "Decode b = (case b of None \<Rightarrow> Inl SyntaxError | Some j \<Rightarrow> decodeChecklist zeroChecklist j)"

subsection \<open>strings.TrimSpace\<close>

text \<open>
  The white space of \<^verbatim>\<open>unicode.IsSpace\<close>, as UTF-8 byte sequences: tab, line feed,
  vertical tab, form feed, carriage return, space, U+0085, U+00A0, U+1680,
  U+2000 to U+200A, U+2028, U+2029, U+202F, U+205F and U+3000. No sequence is a prefix
  or a suffix of another.
\<close>

definition unicodeSpaces :: "string list" where
  "unicodeSpaces =
     [[CHR 0x09], [CHR 0x0A], [CHR 0x0B], [CHR 0x0C], [CHR 0x0D], [CHR 0x20],
      [CHR 0xC2, CHR 0x85], [CHR 0xC2, CHR 0xA0],
      [CHR 0xE1, CHR 0x9A, CHR 0x80],
      [CHR 0xE2, CHR 0x80, CHR 0x80], [CHR 0xE2, CHR 0x80, CHR 0x81],
      [CHR 0xE2, CHR 0x80, CHR 0x82], [CHR 0xE2, CHR 0x80, CHR 0x83],
      [CHR 0xE2, CHR 0x80, CHR 0x84], [CHR 0xE2, CHR 0x80, CHR 0x85],
      [CHR 0xE2, CHR 0x80, CHR 0x86], [CHR 0xE2, CHR 0x80, CHR 0x87],
      [CHR 0xE2, CHR 0x80, CHR 0x88], [CHR 0xE2, CHR 0x80, CHR 0x89],
      [CHR 0xE2, CHR 0x80, CHR 0x8A],
      [CHR 0xE2, CHR 0x80, CHR 0xA8], [CHR 0xE2, CHR 0x80, CHR 0xA9],
      [CHR 0xE2, CHR 0x80, CHR 0xAF],
      [CHR 0xE2, CHR 0x81, CHR 0x9F],
      [CHR 0xE3, CHR 0x80, CHR 0x80]]"

text \<open>The width of the white-space rune \<open>s\<close> starts with; 0 when there is none.\<close>

definition leadingSpace :: "string list \<Rightarrow> string \<Rightarrow> nat" where
  "leadingSpace seqs s = (case find (\<lambda>p. prefix p s) seqs of None \<Rightarrow> 0 | Some p \<Rightarrow> length p)"

fun trimLeftBy :: "string list \<Rightarrow> string \<Rightarrow> string" where
  "trimLeftBy seqs [] = []"
| "trimLeftBy seqs (c # cs) =
     (if leadingSpace seqs (c # cs) = 0 then c # cs
      else trimLeftBy seqs (drop (leadingSpace seqs (c # cs) - 1) cs))"

definition TrimLeft :: "string \<Rightarrow> string" where
  "TrimLeft s = trimLeftBy unicodeSpaces s"

text \<open>The trailing runes are the leading ones of the reversed string, read backwards.\<close>

definition TrimRight :: "string \<Rightarrow> string" where
  "TrimRight s = rev (trimLeftBy (map rev unicodeSpaces) (rev s))"

definition TrimSpace :: "string \<Rightarrow> string" where
  "TrimSpace s = TrimRight (TrimLeft s)"

subsection \<open>Time\<close>

text \<open>
  A \<^verbatim>\<open>time.Time\<close> is an instant, in nanoseconds since the zero time
  (January 1 of year 1, 00:00:00 UTC), and the location it is presented in.
\<close>

datatype location = UTC | Local | FixedZone int

record gotime =
  abs_ns :: int
  loc :: location

text \<open>
  \<^verbatim>\<open>t.Truncate(d)\<close> rounds the instant down to a multiple of \<open>d\<close> since the zero
  time and keeps the location; \<^verbatim>\<open>t.UTC()\<close> keeps the instant.
\<close>

definition Truncate :: "gotime \<Rightarrow> int \<Rightarrow> gotime" where
  "Truncate t d = (if d \<le> 0 then t else t\<lparr>abs_ns := abs_ns t - abs_ns t mod d\<rparr>)"

definition toUTC :: "gotime \<Rightarrow> gotime" where
  "toUTC t = t\<lparr>loc := UTC\<rparr>"

definition Hour :: int where
  "Hour = 3600 * 1000000000"

definition RFC3339 :: string where
  "RFC3339 = ''2006-01-02T15:04:05Z07:00''"

record NullTime =
  Time :: gotime
  Valid :: bool

subsection \<open>The database\<close>

record checklist_row =
  id_col :: int
  child_name :: "string option"
  date_of_check :: "gotime option"
  specialist :: "string option"
  created_at :: gotime

record answer_row =
  answer_id :: int
  checklist_id :: int
  key_name :: string
  label :: "string option"
  value_col :: "string option"
  comment :: "string option"

text \<open>
  The committed tables of \<^verbatim>\<open>prepareSchema\<close>, and the last values of the two
  BIGSERIAL sequences. A sequence is not transactional: a value taken by a transaction
  that rolls back is not given again.
\<close>

record database =
  checklists :: "checklist_row list"
  answers :: "answer_row list"
  checklists_id_seq :: int
  answers_id_seq :: int

text \<open>The rows a pending transaction has inserted, in order.\<close>

record pending =
  new_checklists :: "checklist_row list"
  new_answers :: "answer_row list"

datatype db_call =
    CallBeginTx
  | CallInsertChecklist
  | CallPrepare
  | CallExecAnswer nat
  | CallCommit
  | CallRollback

text \<open>
  The server: the database, the transaction of the request (\<open>None\<close> when none is
  pending) and the calls made to the database so far.
\<close>

record server =
  store :: database
  txn :: "pending option"
  calls :: "db_call list"

text \<open>
  What the handler cannot decide: the result of \<^verbatim>\<open>time.Parse layout value\<close>, the
  successive readings of the clock, and which calls to the database fail (a lost
  connection, the deadline of 8 seconds, a value the database refuses).
\<close>

record env =
  Parse :: "string \<Rightarrow> string \<Rightarrow> gotime option"
  clock :: "nat \<Rightarrow> int"
  fails :: "db_call \<Rightarrow> bool"

text \<open>The \<open>n\<close>-th call of \<^verbatim>\<open>time.Now()\<close>: the reading of the clock, in the local zone.\<close>

definition Now :: "env \<Rightarrow> nat \<Rightarrow> gotime" where
  "Now e n = \<lparr>abs_ns = clock e n, loc = Local\<rparr>"

definition logCall :: "db_call \<Rightarrow> server \<Rightarrow> server" where
  "logCall c s = s\<lparr>calls := calls s @ [c]\<rparr>"

text \<open>\<^verbatim>\<open>db.BeginTx\<close>: the flag is \<^verbatim>\<open>err == nil\<close>.\<close>

definition BeginTx :: "env \<Rightarrow> server \<Rightarrow> bool \<times> server" where
  "BeginTx e s =
     (let s1 = logCall CallBeginTx s in
      if fails e CallBeginTx then (False, s1)
      else (True, s1\<lparr>txn := Some \<lparr>new_checklists = [], new_answers = []\<rparr>\<rparr>))"

text \<open>
  \<^verbatim>\<open>INSERT INTO checklists ... RETURNING id\<close>: the identifier is the next value of the
  sequence; the row stays with the transaction.
\<close>

definition InsertChecklist ::
    "env \<Rightarrow> string option \<Rightarrow> gotime option \<Rightarrow> string option \<Rightarrow> gotime \<Rightarrow> server
       \<Rightarrow> int option \<times> server" where
  "InsertChecklist e cn d sp ca s =
     (let s1 = logCall CallInsertChecklist s in
      if fails e CallInsertChecklist then (None, s1)
      else
        (case txn s1 of
           None \<Rightarrow> (None, s1)
         | Some p \<Rightarrow>
             (let n = checklists_id_seq (store s1) + 1;
                  row = \<lparr>id_col = n, child_name = cn, date_of_check = d, specialist = sp,
                         created_at = ca\<rparr>
              in (Some n,
                  s1\<lparr>store := (store s1)\<lparr>checklists_id_seq := n\<rparr>,
                     txn := Some (p\<lparr>new_checklists := new_checklists p @ [row]\<rparr>)\<rparr>))))"

definition Prepare :: "env \<Rightarrow> server \<Rightarrow> bool \<times> server" where
  "Prepare e s =
     (let s1 = logCall CallPrepare s in
      if fails e CallPrepare then (False, s1)
      else (case txn s1 of None \<Rightarrow> (False, s1) | Some p \<Rightarrow> (True, s1)))"

text \<open>
  \<^verbatim>\<open>stmt.ExecContext(ctx, checklistID, a.Key, a.Label, a.Value, a.Comment)\<close> for the
  answer of index \<open>i\<close>. \<^verbatim>\<open>a.Key\<close> and \<^verbatim>\<open>a.Label\<close> are strings, so they are never
  NULL in the row; a nil \<^verbatim>\<open>*string\<close> is NULL.
\<close>

definition ExecAnswer :: "env \<Rightarrow> nat \<Rightarrow> int \<Rightarrow> Answer \<Rightarrow> server \<Rightarrow> bool \<times> server" where
  "ExecAnswer e i cid a s =
     (let s1 = logCall (CallExecAnswer i) s in
      if fails e (CallExecAnswer i) then (False, s1)
      else
        (case txn s1 of
           None \<Rightarrow> (False, s1)
         | Some p \<Rightarrow>
             (let n = answers_id_seq (store s1) + 1;
                  row = \<lparr>answer_id = n, checklist_id = cid, key_name = Key a,
                         label = Some (Label a), value_col = Value a, comment = Comment a\<rparr>
              in (True,
                  s1\<lparr>store := (store s1)\<lparr>answers_id_seq := n\<rparr>,
                     txn := Some (p\<lparr>new_answers := new_answers p @ [row]\<rparr>)\<rparr>))))"

text \<open>
  \<^verbatim>\<open>tx.Commit()\<close>: the rows of the transaction join the tables, or, when the commit
  fails, are dropped. Either way the transaction is over.
\<close>

definition Commit :: "env \<Rightarrow> server \<Rightarrow> bool \<times> server" where
  "Commit e s =
     (let s1 = logCall CallCommit s in
      case txn s1 of
        None \<Rightarrow> (False, s1)
      | Some p \<Rightarrow>
          if fails e CallCommit then (False, s1\<lparr>txn := None\<rparr>)
          else (True,
                s1\<lparr>store := (store s1)\<lparr>checklists := checklists (store s1) @ new_checklists p,
                                       answers := answers (store s1) @ new_answers p\<rparr>,
                   txn := None\<rparr>))"

text \<open>
  \<^verbatim>\<open>tx.Rollback()\<close>: drops the rows of a pending transaction; on a transaction that is
  over it returns \<^verbatim>\<open>sql.ErrTxDone\<close> without a call to the database.
\<close>

definition Rollback :: "server \<Rightarrow> server" where
  "Rollback s =
     (case txn s of
        None \<Rightarrow> s
      | Some p \<Rightarrow> (logCall CallRollback s)\<lparr>txn := None\<rparr>)"

subsection \<open>The helpers for null handling (lines 254-268)\<close>

definition nullStringPtr :: "string option \<Rightarrow> string option" where
  "nullStringPtr s =
     (case s of
        None \<Rightarrow> None
      | Some x \<Rightarrow> if TrimSpace x = [] then None else Some (TrimSpace x))"

definition nullTime :: "NullTime \<Rightarrow> gotime option" where
  "nullTime t = (if Valid t then Some (Time t) else None)"

subsection \<open>The request and the response\<close>

record request =
  Method :: string
  Body :: "json option"

text \<open>
  The body of a response: the message of \<^verbatim>\<open>http.Error\<close>, the message
  \<^verbatim>\<open>invalid json: ...\<close> with the error of the decoder, or the JSON object
  \<^verbatim>\<open>{"id": n}\<close> written by the encoder.
\<close>

datatype payload =
    PlainText string
  | InvalidJson decode_error
  | IdObject int

record response =
  status :: nat
  content_type :: string
  payload :: payload

text \<open>\<^verbatim>\<open>http.Error(w, msg, code)\<close>.\<close>

definition httpError :: "payload \<Rightarrow> nat \<Rightarrow> response" where
  "httpError msg code =
     \<lparr>status = code, content_type = ''text/plain; charset=utf-8'', payload = msg\<rparr>"

subsection \<open>checklistHandler (lines 118-226)\<close>

text \<open>
  Lines 138-157. \<open>None\<close> is the rejection of line 149; otherwise the date and the number
  of readings of the clock taken.
\<close>

definition normalizeDate :: "env \<Rightarrow> string option \<Rightarrow> (NullTime \<times> nat) option" where
  "normalizeDate e d =
     (if d \<noteq> None \<and> TrimSpace (the d) \<noteq> [] then
        (case Parse e ''2006-01-02'' (TrimSpace (the d)) of
           Some t \<Rightarrow> Some (\<lparr>Time = t, Valid = True\<rparr>, 0)
         | None \<Rightarrow>
             (case Parse e RFC3339 (TrimSpace (the d)) of
                Some t2 \<Rightarrow> Some (\<lparr>Time = t2, Valid = True\<rparr>, 0)
              | None \<Rightarrow> None))
      else Some (\<lparr>Time = Truncate (Now e 0) (24 * Hour), Valid = True\<rparr>, 1))"

text \<open>Lines 159-169, with \<open>n\<close> the readings of the clock taken before.\<close>

definition parseCreatedAt :: "env \<Rightarrow> nat \<Rightarrow> string option \<Rightarrow> gotime" where
  "parseCreatedAt e n c =
     (if c \<noteq> None \<and> the c \<noteq> [] then
        (case Parse e RFC3339 (the c) of
           Some t \<Rightarrow> t
         | None \<Rightarrow> toUTC (Now e n))
      else toUTC (Now e n))"

text \<open>The loop of lines 206-214, from the answer of index \<open>i\<close> on.\<close>

fun insertAnswers :: "env \<Rightarrow> int \<Rightarrow> nat \<Rightarrow> Answer list \<Rightarrow> server \<Rightarrow> bool \<times> server" where
  "insertAnswers e cid i [] s = (True, s)"
| "insertAnswers e cid i (a # rest) s =
     (case ExecAnswer e i cid a s of
        (False, s1) \<Rightarrow> (False, s1)
      | (True, s1) \<Rightarrow> insertAnswers e cid (Suc i) rest s1)"

text \<open>Lines 186-225: the statements inside the transaction.\<close>

definition persist :: "env \<Rightarrow> Checklist \<Rightarrow> NullTime \<Rightarrow> gotime \<Rightarrow> server \<Rightarrow> response \<times> server" where
  "persist e c date createdAt s =
     (case InsertChecklist e (nullStringPtr (ChildName c)) (nullTime date)
             (nullStringPtr (Specialist c)) createdAt s of
        (None, s1) \<Rightarrow> (httpError (PlainText ''failed to insert checklist'') 500, s1)
      | (Some checklistID, s1) \<Rightarrow>
          (case Prepare e s1 of
             (False, s2) \<Rightarrow> (httpError (PlainText ''failed to prepare answer insert'') 500, s2)
           | (True, s2) \<Rightarrow>
               (case insertAnswers e checklistID 0 (Answers c) s2 of
                  (False, s3) \<Rightarrow> (httpError (PlainText ''failed to insert answers'') 500, s3)
                | (True, s3) \<Rightarrow>
                    (case Commit e s3 of
                       (False, s4) \<Rightarrow> (httpError (PlainText ''failed to commit'') 500, s4)
                     | (True, s4) \<Rightarrow>
                         (\<lparr>status = 201, content_type = ''application/json'',
                           payload = IdObject checklistID\<rparr>, s4)))))"

text \<open>
  The handler. The deferred \<^verbatim>\<open>tx.Rollback()\<close> runs on every return after a
  successful \<^verbatim>\<open>BeginTx\<close>.
\<close>

definition checklistHandler :: "env \<Rightarrow> server \<Rightarrow> request \<Rightarrow> response \<times> server" where
  "checklistHandler e s r =
     (if Method r \<noteq> ''POST'' then (httpError (PlainText ''method not allowed'') 405, s)
      else
        (case Decode (Body r) of
           Inl err \<Rightarrow> (httpError (InvalidJson err) 400, s)
         | Inr c \<Rightarrow>
             if length (Answers c) = 0 then
               (httpError (PlainText ''answers must be provided'') 400, s)
             else
               (case normalizeDate e (Date c) of
                  None \<Rightarrow> (httpError (PlainText ''date must be YYYY-MM-DD or RFC3339'') 400, s)
                | Some (date, n) \<Rightarrow>
                    (let createdAt = parseCreatedAt e n (CreatedAt c) in
                     case BeginTx e s of
                       (False, s1) \<Rightarrow> (httpError (PlainText ''failed to begin tx'') 500, s1)
                     | (True, s1) \<Rightarrow>
                         (case persist e c date createdAt s1 of
                            (resp, s2) \<Rightarrow> (resp, Rollback s2))))))"

subsection \<open>What is observed, and the examples\<close>

text \<open>The committed rows: what a reader of the two tables sees.\<close>

definition tables :: "server \<Rightarrow> checklist_row list \<times> answer_row list" where
  "tables s = (checklists (store s), answers (store s))"

text \<open>The four columns of an answer row that come from the payload, and their source.\<close>

definition answer_columns :: "answer_row \<Rightarrow> string \<times> string option \<times> string option \<times> string option" where
  "answer_columns row = (key_name row, label row, value_col row, comment row)"


text \<open>
  The rows the loop adds for the answers \<open>as\<close> of the checklist \<open>cid\<close>, when the
  sequence of the answers table stands at \<open>n\<close>.
\<close>

fun answerRows :: "int \<Rightarrow> int \<Rightarrow> Answer list \<Rightarrow> answer_row list" where
  "answerRows cid n [] = []"
| "answerRows cid n (a # rest) =
     \<lparr>answer_id = n + 1, checklist_id = cid, key_name = Key a, label = Some (Label a),
      value_col = Value a, comment = Comment a\<rparr> # answerRows cid (n + 1) rest"

text \<open>No call to the database fails, for a submission of \<open>n\<close> answers.\<close>

definition noFailure :: "env \<Rightarrow> nat \<Rightarrow> bool" where
  "noFailure e n =
     (\<not> fails e CallBeginTx \<and> \<not> fails e CallInsertChecklist \<and> \<not> fails e CallPrepare \<and>
      (\<forall>i<n. \<not> fails e (CallExecAnswer i)) \<and> \<not> fails e CallCommit)"

text \<open>
  An environment for the examples: the clock reads 2024-01-15T10:30:00Z
  (63840911400 seconds after the zero time) and a nanosecond more at each reading, no
  call to the database fails, and \<^verbatim>\<open>time.Parse\<close> is given on the strings of the
  examples only: it reads \<^verbatim>\<open>2024-01-15\<close> with the layout of dates and
  \<^verbatim>\<open>2024-01-15T10:30:00Z\<close> with RFC3339, and fails on the other strings used below.
\<close>

definition sample_env :: env where
  "sample_env =
     \<lparr>Parse = (\<lambda>layout v.
         map_of
           [((''2006-01-02'', ''2024-01-15''), \<lparr>abs_ns = 63840873600000000000, loc = UTC\<rparr>),
            ((RFC3339, ''2024-01-15T10:30:00Z''), \<lparr>abs_ns = 63840911400000000000, loc = UTC\<rparr>)]
           (layout, v)),
      clock = (\<lambda>n. 63840911400000000000 + int n),
      fails = (\<lambda>c. False)\<rparr>"


definition empty_server :: server where
  "empty_server =
     \<lparr>store = \<lparr>checklists = [], answers = [], checklists_id_seq = 0, answers_id_seq = 0\<rparr>,
      txn = None, calls = []\<rparr>"

definition post :: "json \<Rightarrow> request" where
  "post j = \<lparr>Method = ''POST'', Body = Some j\<rparr>"

text \<open>The payload \<^verbatim>\<open>{"childName":"A","answers":[{"key":"k1","value":"yes"}]}\<close>.\<close>

definition example_payload :: json where
  "example_payload =
     JObject
       [(''childName'', JString ''A''),
        (''answers'', JArray [JObject [(''key'', JString ''k1''), (''value'', JString ''yes'')]])]"

text \<open>Payloads for the examples of the theorems below.\<close>

definition two_answers_payload :: json where
  "two_answers_payload =
     JObject
       [(''childName'', JString ''  Ann  ''),
        (''specialist'', JString ''   ''),
        (''date'', JString ''2024-01-15''),
        (''createdAt'', JString ''garbage''),
        (''answers'',
         JArray
           [JObject [(''key'', JString []), (''label'', JString '' l ''), (''value'', JNull),
                     (''comment'', JString '' c '')],
            JObject [(''key'', JString ''k2''), (''label'', JString ''L2''),
                     (''value'', JString ''no'')]])]"

definition two_answers_checklist :: Checklist where
  "two_answers_checklist =
     \<lparr>ChildName = Some ''  Ann  '', Date = Some ''2024-01-15'', Specialist = Some ''   '',
      CreatedAt = Some ''garbage'',
      Answers =
        [\<lparr>Key = [], Label = '' l '', Value = None, Comment = Some '' c ''\<rparr>,
         \<lparr>Key = ''k2'', Label = ''L2'', Value = Some ''no'', Comment = None\<rparr>]\<rparr>"

definition bad_date_payload :: json where
  "bad_date_payload =
     JObject
       [(''date'', JString ''not-a-date''),
        (''answers'', JArray [JObject [(''key'', JString ''k1'')]])]"

definition unknown_field_payload :: json where
  "unknown_field_payload =
     JObject
       [(''foo'', JNumber ''1''),
        (''childName'', JString ''A''),
        (''answers'', JArray [JObject [(''key'', JString ''k1''), (''value'', JString ''yes'')]])]"

definition timestamped_payload :: json where
  "timestamped_payload =
     JObject
       [(''date'', JString ''2024-01-15''),
        (''createdAt'', JString ''2024-01-15T10:30:00Z''),
        (''answers'', JArray [JObject [(''key'', JString ''k1'')]])]"

definition no_answers_payload :: json where
  "no_answers_payload = JObject [(''childName'', JString ''A''), (''answers'', JArray [])]"

section \<open>Properties\<close>

subsection \<open>The calls to the database\<close>

lemma tables_logCall: "tables (logCall c s) = tables s"
  by (simp add: tables_def logCall_def)

lemma tables_BeginTx: "BeginTx e s = (ok, s1) \<Longrightarrow> tables s1 = tables s"
  by (auto simp add: BeginTx_def Let_def tables_def logCall_def split: if_splits)

lemma tables_InsertChecklist: "InsertChecklist e cn d sp ca s = (r, s1) \<Longrightarrow> tables s1 = tables s"
  by (auto simp add: InsertChecklist_def Let_def tables_def logCall_def split: option.splits if_splits)

lemma tables_Prepare: "Prepare e s = (ok, s1) \<Longrightarrow> tables s1 = tables s"
  by (auto simp add: Prepare_def Let_def tables_def logCall_def split: option.splits if_splits)

lemma tables_ExecAnswer: "ExecAnswer e i cid a s = (ok, s1) \<Longrightarrow> tables s1 = tables s"
  by (auto simp add: ExecAnswer_def Let_def tables_def logCall_def split: option.splits if_splits)

lemma tables_insertAnswers: "insertAnswers e cid i xs s = (ok, s') \<Longrightarrow> tables s' = tables s"
proof (induction xs arbitrary: i s)
  case Nil
  then show ?case by simp
next
  case (Cons a xs)
  obtain ok1 s1 where ex: "ExecAnswer e i cid a s = (ok1, s1)"
    by (cases "ExecAnswer e i cid a s")
  have t1: "tables s1 = tables s"
    using tables_ExecAnswer [OF ex] .
  show ?case
  proof (cases ok1)
    case True
    then have "insertAnswers e cid (Suc i) xs s1 = (ok, s')" using ex Cons.prems by simp
    then show ?thesis using t1 Cons.IH by simp
  next
    case False
    then show ?thesis using ex t1 Cons.prems by simp
  qed
qed

lemma tables_Rollback: "tables (Rollback s) = tables s"
  by (simp add: Rollback_def tables_def logCall_def split: option.splits)

lemma tables_Commit_failed: "Commit e s = (False, s1) \<Longrightarrow> tables s1 = tables s"
  by (auto simp add: Commit_def Let_def tables_def logCall_def split: option.splits if_splits)





lemma InsertChecklist_Some:
  assumes "InsertChecklist e cn d sp ca s = (Some cid, s1)" and "txn s = Some p"
  shows "cid = checklists_id_seq (store s) + 1 \<and>
         txn s1 = Some (p\<lparr>new_checklists := new_checklists p @
            [\<lparr>id_col = cid, child_name = cn, date_of_check = d, specialist = sp, created_at = ca\<rparr>]\<rparr>) \<and>
         answers_id_seq (store s1) = answers_id_seq (store s)"
  using assms
  by (auto simp add: InsertChecklist_def Let_def logCall_def split: if_splits option.splits)

lemma InsertChecklist_ok:
  assumes "\<not> fails e CallInsertChecklist" and "txn s = Some p"
    and "InsertChecklist e cn d sp ca s = (r, s1)"
  shows "r \<noteq> None"
  using assms by (auto simp add: InsertChecklist_def Let_def logCall_def)

lemma Prepare_True:
  assumes "Prepare e s = (True, s1)"
  shows "txn s1 = txn s \<and> store s1 = store s"
  using assms
  by (auto simp add: Prepare_def Let_def logCall_def split: if_splits option.splits)

lemma Prepare_ok:
  assumes "\<not> fails e CallPrepare" and "txn s = Some p"
    and "Prepare e s = (ok, s1)"
  shows "ok = True"
  using assms by (auto simp add: Prepare_def Let_def logCall_def)

lemma ExecAnswer_True:
  assumes "ExecAnswer e i cid a s = (True, s1)" and "txn s = Some p"
  shows "txn s1 = Some (p\<lparr>new_answers := new_answers p @ answerRows cid (answers_id_seq (store s)) [a]\<rparr>) \<and>
         answers_id_seq (store s1) = answers_id_seq (store s) + 1"
  using assms
  by (auto simp add: ExecAnswer_def Let_def logCall_def split: if_splits option.splits)

lemma ExecAnswer_ok:
  assumes "\<not> fails e (CallExecAnswer i)" and "txn s = Some p"
    and "ExecAnswer e i cid a s = (ok, s1)"
  shows "ok = True"
  using assms by (auto simp add: ExecAnswer_def Let_def logCall_def)

lemma insertAnswers_True:
  "insertAnswers e cid i xs s = (True, s') \<Longrightarrow> txn s = Some p \<Longrightarrow>
   txn s' = Some (p\<lparr>new_answers := new_answers p @ answerRows cid (answers_id_seq (store s)) xs\<rparr>)"
proof (induction xs arbitrary: i s p)
  case Nil
  then show ?case by simp
next
  case (Cons a xs)
  obtain ok1 s1 where ex: "ExecAnswer e i cid a s = (ok1, s1)"
    by (cases "ExecAnswer e i cid a s")
  have ok1: "ok1 = True" using ex Cons.prems(1) by (cases ok1) simp_all
  then have rest: "insertAnswers e cid (Suc i) xs s1 = (True, s')" using ex Cons.prems(1) by simp
  have s1: "txn s1 = Some (p\<lparr>new_answers := new_answers p @ answerRows cid (answers_id_seq (store s)) [a]\<rparr>)"
     and n1: "answers_id_seq (store s1) = answers_id_seq (store s) + 1"
    using ExecAnswer_True [of e i cid a s s1 p] ex ok1 Cons.prems(2) by simp_all
  show ?case using Cons.IH [OF rest s1] n1 by simp
qed

lemma insertAnswers_ok:
  "txn s = Some p \<Longrightarrow> \<forall>j<length xs. \<not> fails e (CallExecAnswer (i + j)) \<Longrightarrow>
   fst (insertAnswers e cid i xs s) = True"
proof (induction xs arbitrary: i s p)
  case Nil
  then show ?case by simp
next
  case (Cons a xs)
  obtain ok1 s1 where ex: "ExecAnswer e i cid a s = (ok1, s1)"
    by (cases "ExecAnswer e i cid a s")
  have "\<not> fails e (CallExecAnswer i)" using Cons.prems(2) by force
  then have ok1: "ok1 = True" using ExecAnswer_ok [OF _ Cons.prems(1) ex] by simp
  have s1: "txn s1 = Some (p\<lparr>new_answers := new_answers p @ answerRows cid (answers_id_seq (store s)) [a]\<rparr>)"
    using ExecAnswer_True [of e i cid a s s1 p] ex ok1 Cons.prems(1) by simp
  have "\<forall>j<length xs. \<not> fails e (CallExecAnswer (Suc i + j))"
  proof (intro allI impI)
    fix j assume "j < length xs"
    then have "Suc j < length (a # xs)" by simp
    then have "\<not> fails e (CallExecAnswer (i + Suc j))" using Cons.prems(2) by blast
    then show "\<not> fails e (CallExecAnswer (Suc i + j))" by simp
  qed
  then have "fst (insertAnswers e cid (Suc i) xs s1) = True" using Cons.IH [OF s1] by simp
  then show ?case using ex ok1 by simp
qed

lemma Commit_True:
  assumes "Commit e s = (True, s1)" and "txn s = Some p"
  shows "txn s1 = None \<and>
         tables s1 = (checklists (store s) @ new_checklists p, answers (store s) @ new_answers p)"
  using assms
  by (auto simp add: Commit_def Let_def logCall_def tables_def split: if_splits option.splits)

lemma Commit_ok:
  assumes "\<not> fails e CallCommit" and "txn s = Some p"
    and "Commit e s = (ok, s1)"
  shows "ok = True"
  using assms by (auto simp add: Commit_def Let_def logCall_def)


lemma persist_outcome:
  assumes tx: "txn s = Some \<lparr>new_checklists = [], new_answers = []\<rparr>"
    and p: "persist e c date ca s = (resp, s')"
  shows "(status resp \<noteq> 201 \<and> tables s' = tables s) \<or>
         (resp = \<lparr>status = 201, content_type = ''application/json'',
                  payload = IdObject (checklists_id_seq (store s) + 1)\<rparr> \<and>
          txn s' = None \<and>
          tables s' =
            (checklists (store s) @
               [\<lparr>id_col = checklists_id_seq (store s) + 1,
                 child_name = nullStringPtr (ChildName c), date_of_check = nullTime date,
                 specialist = nullStringPtr (Specialist c), created_at = ca\<rparr>],
             answers (store s) @
               answerRows (checklists_id_seq (store s) + 1) (answers_id_seq (store s))
                 (Answers c)))"
proof -
  obtain r1 s1 where i1: "InsertChecklist e (nullStringPtr (ChildName c)) (nullTime date)
             (nullStringPtr (Specialist c)) ca s = (r1, s1)"
    by (cases "InsertChecklist e (nullStringPtr (ChildName c)) (nullTime date)
             (nullStringPtr (Specialist c)) ca s")
  have t1: "tables s1 = tables s" using tables_InsertChecklist [OF i1] .
  show ?thesis
  proof (cases r1)
    case None
    then show ?thesis using p i1 t1 by (auto simp: persist_def httpError_def)
  next
    case (Some cid)
    have c1: "cid = checklists_id_seq (store s) + 1"
      and x1: "txn s1 = Some (\<lparr>new_checklists = [], new_answers = []\<rparr>\<lparr>new_checklists :=
            [\<lparr>id_col = cid, child_name = nullStringPtr (ChildName c), date_of_check = nullTime date,
              specialist = nullStringPtr (Specialist c), created_at = ca\<rparr>]\<rparr>)"
      and n1: "answers_id_seq (store s1) = answers_id_seq (store s)"
      using InsertChecklist_Some [of e _ _ _ ca s cid s1, OF _ tx] i1 Some by simp_all
    obtain ok2 s2 where i2: "Prepare e s1 = (ok2, s2)" by (cases "Prepare e s1")
    have t2: "tables s2 = tables s" using tables_Prepare [OF i2] t1 by simp
    show ?thesis
    proof (cases ok2)
      case False
      then show ?thesis using p i1 i2 t2 Some by (auto simp: persist_def httpError_def)
    next
      case True
      have i2': "Prepare e s1 = (True, s2)" using i2 True by simp
      have x2: "txn s2 = txn s1" and st2: "store s2 = store s1"
        using Prepare_True [OF i2'] by simp_all
      obtain ok3 s3 where i3: "insertAnswers e cid 0 (Answers c) s2 = (ok3, s3)"
        by (cases "insertAnswers e cid 0 (Answers c) s2")
      have t3: "tables s3 = tables s" using tables_insertAnswers [OF i3] t2 by simp
      show ?thesis
      proof (cases ok3)
        case False
        then show ?thesis using p i1 i2 i3 t3 Some True by (auto simp: persist_def httpError_def)
      next
        case ok3: True
        have x3: "txn s3 = Some \<lparr>new_checklists =
            [\<lparr>id_col = cid, child_name = nullStringPtr (ChildName c), date_of_check = nullTime date,
              specialist = nullStringPtr (Specialist c), created_at = ca\<rparr>],
            new_answers = answerRows cid (answers_id_seq (store s)) (Answers c)\<rparr>"
          using insertAnswers_True [of e cid 0 "Answers c" s2 s3] i3 ok3 x1 x2 st2 n1 by simp
        obtain ok4 s4 where i4: "Commit e s3 = (ok4, s4)" by (cases "Commit e s3")
        show ?thesis
        proof (cases ok4)
          case False
          then show ?thesis
            using p i1 i2 i3 i4 t3 Some True ok3 tables_Commit_failed [of e s3 s4]
            by (auto simp: persist_def httpError_def)
        next
          case ok4: True
          have "txn s4 = None"
            and "tables s4 = (checklists (store s3) @
               [\<lparr>id_col = cid, child_name = nullStringPtr (ChildName c), date_of_check = nullTime date,
                 specialist = nullStringPtr (Specialist c), created_at = ca\<rparr>],
               answers (store s3) @ answerRows cid (answers_id_seq (store s)) (Answers c))"
            using Commit_True [of e s3 s4, OF _ x3] i4 ok4 by simp_all
          moreover have "checklists (store s3) = checklists (store s)"
            and "answers (store s3) = answers (store s)"
            using t3 by (simp_all add: tables_def)
          moreover have "resp = \<lparr>status = 201, content_type = ''application/json'',
              payload = IdObject cid\<rparr>" and "s' = s4"
            using p i1 i2 i3 i4 Some True ok3 ok4 by (simp_all add: persist_def)
          ultimately show ?thesis using c1 by simp
        qed
      qed
    qed
  qed
qed

lemma persist_created:
  assumes tx: "txn s = Some p" and nf: "noFailure e (length (Answers c))"
  shows "status (fst (persist e c date ca s)) = 201"
proof -
  have f1: "\<not> fails e CallInsertChecklist" and f2: "\<not> fails e CallPrepare"
    and f3: "\<forall>j<length (Answers c). \<not> fails e (CallExecAnswer (0 + j))"
    and f4: "\<not> fails e CallCommit"
    using nf by (simp_all add: noFailure_def)
  obtain r1 s1 where i1: "InsertChecklist e (nullStringPtr (ChildName c)) (nullTime date)
             (nullStringPtr (Specialist c)) ca s = (r1, s1)"
    by (cases "InsertChecklist e (nullStringPtr (ChildName c)) (nullTime date)
             (nullStringPtr (Specialist c)) ca s")
  have "r1 \<noteq> None" using InsertChecklist_ok [OF f1 tx i1] .
  then obtain cid where r1: "r1 = Some cid" by (cases r1) simp_all
  have i1': "InsertChecklist e (nullStringPtr (ChildName c)) (nullTime date)
             (nullStringPtr (Specialist c)) ca s = (Some cid, s1)"
    using i1 r1 by simp
  obtain p1 where x1: "txn s1 = Some p1"
    using InsertChecklist_Some [OF i1' tx] by simp
  obtain ok2 s2 where i2: "Prepare e s1 = (ok2, s2)" by (cases "Prepare e s1")
  have ok2: "ok2 = True" using Prepare_ok [OF f2 x1 i2] .
  have i2': "Prepare e s1 = (True, s2)" using i2 ok2 by simp
  have x2: "txn s2 = Some p1" using Prepare_True [OF i2'] x1 by simp
  obtain ok3 s3 where i3: "insertAnswers e cid 0 (Answers c) s2 = (ok3, s3)"
    by (cases "insertAnswers e cid 0 (Answers c) s2")
  have ok3: "ok3 = True"
    using insertAnswers_ok [OF x2 f3, of cid] i3 by simp
  have i3': "insertAnswers e cid 0 (Answers c) s2 = (True, s3)" using i3 ok3 by simp
  obtain p3 where x3: "txn s3 = Some p3"
    using insertAnswers_True [OF i3' x2] by simp
  obtain ok4 s4 where i4: "Commit e s3 = (ok4, s4)" by (cases "Commit e s3")
  have ok4: "ok4 = True" using Commit_ok [OF f4 x3 i4] .
  show ?thesis using i1 r1 i2 ok2 i3 ok3 i4 ok4 by (simp add: persist_def)
qed

lemma handler_valid:
  assumes "Method r = ''POST''" and "Decode (Body r) = Inr c" and "Answers c \<noteq> []"
    and "normalizeDate e (Date c) = Some (date, n)"
  shows "checklistHandler e s r =
     (case BeginTx e s of
        (False, s1) \<Rightarrow> (httpError (PlainText ''failed to begin tx'') 500, s1)
      | (True, s1) \<Rightarrow>
          (case persist e c date (parseCreatedAt e n (CreatedAt c)) s1 of
             (resp, s2) \<Rightarrow> (resp, Rollback s2)))"
  using assms by (simp add: checklistHandler_def)

lemma BeginTx_True:
  assumes "BeginTx e s = (True, s1)"
  shows "txn s1 = Some \<lparr>new_checklists = [], new_answers = []\<rparr> \<and> store s1 = store s"
  using assms by (auto simp add: BeginTx_def Let_def logCall_def split: if_splits)

lemma BeginTx_ok: "\<not> fails e CallBeginTx \<Longrightarrow> fst (BeginTx e s) = True"
  by (simp add: BeginTx_def Let_def)

lemma Rollback_done: "txn s = None \<Longrightarrow> Rollback s = s"
  by (simp add: Rollback_def)





lemma decodeChecklistMember_unknown:
  "lookupField checklistFields k = None \<Longrightarrow> decodeChecklistMember c k v = Inl (UnknownField k)"
  by (simp add: decodeChecklistMember_def)

lemma decodeChecklistMembers_unknown:
  "(k, v) \<in> set kvs \<Longrightarrow> lookupField checklistFields k = None \<Longrightarrow>
   \<exists>err. decodeChecklistMembers c kvs = Inl err"
proof (induction kvs arbitrary: c)
  case Nil
  then show ?case by simp
next
  case (Cons kv kvs)
  obtain k' v' where kv: "kv = (k', v')" by (cases kv)
  show ?case
  proof (cases "decodeChecklistMember c k' v'")
    case (Inl e)
    then show ?thesis using kv by simp
  next
    case (Inr c1)
    have "k' \<noteq> k"
    proof
      assume "k' = k"
      then have "decodeChecklistMember c k' v' = Inl (UnknownField k')"
        using Cons.prems(2) decodeChecklistMember_unknown by simp
      then show False using Inr by simp
    qed
    then have "(k, v) \<in> set kvs" using Cons.prems(1) kv by auto
    then show ?thesis using Cons.IH [OF _ Cons.prems(2)] Inr kv by simp
  qed
qed

lemma decodeChecklistMember_no_answers:
  assumes "decodeChecklistMember c k v = Inr c1" and "Answers c = []"
    and "lookupField checklistFields k = Some F_answers \<longrightarrow> v = JArray [] \<or> v = JNull"
  shows "Answers c1 = []"
proof (cases "lookupField checklistFields k")
  case None
  then show ?thesis using assms(1) by (simp add: decodeChecklistMember_def)
next
  case (Some f)
  then show ?thesis
    using assms
    by (cases f) (auto simp add: decodeChecklistMember_def split: sum.splits)
qed

lemma decodeChecklistMembers_no_answers:
  "decodeChecklistMembers c kvs = Inr c' \<Longrightarrow> Answers c = [] \<Longrightarrow>
   \<forall>(k, v) \<in> set kvs. lookupField checklistFields k = Some F_answers \<longrightarrow> v = JArray [] \<or> v = JNull \<Longrightarrow>
   Answers c' = []"
proof (induction kvs arbitrary: c)
  case Nil
  then show ?case by simp
next
  case (Cons kv kvs)
  obtain k v where kv: "kv = (k, v)" by (cases kv)
  show ?case
  proof (cases "decodeChecklistMember c k v")
    case (Inl e)
    then show ?thesis using Cons.prems(1) kv by simp
  next
    case (Inr c1)
    have "lookupField checklistFields k = Some F_answers \<longrightarrow> v = JArray [] \<or> v = JNull"
      using Cons.prems(3) kv by simp
    then have a1: "Answers c1 = []"
      using decodeChecklistMember_no_answers [OF Inr Cons.prems(2)] by simp
    have rest: "decodeChecklistMembers c1 kvs = Inr c'" using Cons.prems(1) kv Inr by simp
    have "\<forall>(k, v) \<in> set kvs. lookupField checklistFields k = Some F_answers \<longrightarrow> v = JArray [] \<or> v = JNull"
      using Cons.prems(3) by simp
    then show ?thesis using Cons.IH [OF rest a1] by simp
  qed
qed

lemma leadingSpace_prefix:
  "prefix t' t \<Longrightarrow> leadingSpace seqs t = 0 \<Longrightarrow> [] \<notin> set seqs \<Longrightarrow> leadingSpace seqs t' = 0"
proof (induction seqs)
  case Nil
  then show ?case by (simp add: leadingSpace_def)
next
  case (Cons p seqs)
  have np: "\<not> prefix p t"
    using Cons.prems(2,3) by (auto simp: leadingSpace_def split: if_splits)
  then have np': "\<not> prefix p t'" using Cons.prems(1) prefix_order.trans by blast
  have "leadingSpace seqs t = 0" using Cons.prems(2) np by (simp add: leadingSpace_def)
  then have "leadingSpace seqs t' = 0" using Cons.IH Cons.prems(1,3) by simp
  then show ?case using np' by (simp add: leadingSpace_def)
qed

lemma trimLeftBy_no_leading: "leadingSpace seqs (trimLeftBy seqs s) = 0"
  by (induction seqs s rule: trimLeftBy.induct)
    (auto simp add: leadingSpace_def find_Some_iff split: option.splits)

lemma trimLeftBy_suffix: "suffix (trimLeftBy seqs s) s"
proof (induction seqs s rule: trimLeftBy.induct)
  case (1 seqs)
  then show ?case by simp
next
  case (2 seqs c cs)
  show ?case
  proof (cases "leadingSpace seqs (c # cs) = 0")
    case True
    then show ?thesis by simp
  next
    case False
    then have "suffix (trimLeftBy seqs (drop (leadingSpace seqs (c # cs) - 1) cs))
                 (drop (leadingSpace seqs (c # cs) - 1) cs)"
      using 2 by simp
    moreover have "suffix (drop (leadingSpace seqs (c # cs) - 1) cs) (c # cs)"
      by (meson suffix_ConsI suffix_drop)
    ultimately show ?thesis using False suffix_order.trans by auto
  qed
qed


lemma TrimSpace_no_leading: "leadingSpace unicodeSpaces (TrimSpace s) = 0"
proof -
  have "suffix (trimLeftBy (map rev unicodeSpaces) (rev (TrimLeft s))) (rev (TrimLeft s))"
    by (rule trimLeftBy_suffix)
  then have "prefix (TrimSpace s) (TrimLeft s)"
    by (simp add: TrimSpace_def TrimRight_def suffix_to_prefix)
  moreover have "leadingSpace unicodeSpaces (TrimLeft s) = 0"
    by (simp add: TrimLeft_def trimLeftBy_no_leading)
  moreover have "[] \<notin> set unicodeSpaces"
    by (simp add: unicodeSpaces_def)
  ultimately show ?thesis by (rule leadingSpace_prefix)
qed

lemma TrimSpace_no_trailing: "leadingSpace (map rev unicodeSpaces) (rev (TrimSpace s)) = 0"
  by (simp add: TrimSpace_def TrimRight_def trimLeftBy_no_leading)

lemma handler_outcome:
  assumes r: "Method r = ''POST''" and d: "Decode (Body r) = Inr c"
    and h: "checklistHandler e s r = (resp, s')"
  shows "(status resp \<noteq> 201 \<and> tables s' = tables s) \<or>
         (\<exists>date n. Answers c \<noteq> [] \<and> normalizeDate e (Date c) = Some (date, n) \<and>
            resp = \<lparr>status = 201, content_type = ''application/json'',
                    payload = IdObject (checklists_id_seq (store s) + 1)\<rparr> \<and>
            tables s' =
              (checklists (store s) @
                 [\<lparr>id_col = checklists_id_seq (store s) + 1,
                   child_name = nullStringPtr (ChildName c), date_of_check = nullTime date,
                   specialist = nullStringPtr (Specialist c),
                   created_at = parseCreatedAt e n (CreatedAt c)\<rparr>],
               answers (store s) @
                 answerRows (checklists_id_seq (store s) + 1) (answers_id_seq (store s))
                   (Answers c)))"
proof (cases "Answers c = []")
  case True
  then show ?thesis using r d h by (auto simp: checklistHandler_def httpError_def)
next
  case ne: False
  show ?thesis
  proof (cases "normalizeDate e (Date c)")
    case None
    then show ?thesis using r d h ne by (auto simp: checklistHandler_def httpError_def)
  next
    case (Some dn)
    obtain date n where dn: "dn = (date, n)" by (cases dn)
    have nd: "normalizeDate e (Date c) = Some (date, n)" using Some dn by simp
    note hv = handler_valid [OF r d ne nd, of s]
    obtain ok s1 where b: "BeginTx e s = (ok, s1)" by (cases "BeginTx e s")
    have t1: "tables s1 = tables s" using tables_BeginTx [OF b] .
    show ?thesis
    proof (cases ok)
      case False
      then show ?thesis using hv h b t1 by (auto simp: httpError_def)
    next
      case True
      then have b': "BeginTx e s = (True, s1)" using b by simp
      have x1: "txn s1 = Some \<lparr>new_checklists = [], new_answers = []\<rparr>"
        and st1: "store s1 = store s"
        using BeginTx_True [OF b'] by simp_all
      obtain resp2 s2 where p: "persist e c date (parseCreatedAt e n (CreatedAt c)) s1 = (resp2, s2)"
        by (cases "persist e c date (parseCreatedAt e n (CreatedAt c)) s1")
      have res: "resp = resp2" "s' = Rollback s2" using hv h b' p by simp_all
      from persist_outcome [OF x1 p] show ?thesis
      proof
        assume "status resp2 \<noteq> 201 \<and> tables s2 = tables s1"
        then show ?thesis using res t1 tables_Rollback [of s2] by simp
      next
        assume a: "resp2 = \<lparr>status = 201, content_type = ''application/json'',
                  payload = IdObject (checklists_id_seq (store s1) + 1)\<rparr> \<and>
          txn s2 = None \<and>
          tables s2 =
            (checklists (store s1) @
               [\<lparr>id_col = checklists_id_seq (store s1) + 1,
                 child_name = nullStringPtr (ChildName c), date_of_check = nullTime date,
                 specialist = nullStringPtr (Specialist c),
                 created_at = parseCreatedAt e n (CreatedAt c)\<rparr>],
             answers (store s1) @
               answerRows (checklists_id_seq (store s1) + 1) (answers_id_seq (store s1))
                 (Answers c))"
        then have "Rollback s2 = s2" using Rollback_done by simp
        then show ?thesis using a res st1 ne nd by simp
      qed
    qed
  qed
qed

lemma handler_created:
  assumes r: "Method r = ''POST''" and d: "Decode (Body r) = Inr c" and ne: "Answers c \<noteq> []"
    and nd: "normalizeDate e (Date c) = Some (date, n)"
    and nf: "noFailure e (length (Answers c))"
  shows "status (fst (checklistHandler e s r)) = 201"
proof -
  note hv = handler_valid [OF r d ne nd, of s]
  obtain ok s1 where b: "BeginTx e s = (ok, s1)" by (cases "BeginTx e s")
  have "\<not> fails e CallBeginTx" using nf by (simp add: noFailure_def)
  then have ok: "ok = True" using BeginTx_ok [of e s] b by simp
  then have x1: "txn s1 = Some \<lparr>new_checklists = [], new_answers = []\<rparr>"
    using BeginTx_True [of e s s1] b by simp
  have "status (fst (persist e c date (parseCreatedAt e n (CreatedAt c)) s1)) = 201"
    using persist_created [OF x1 nf] .
  then show ?thesis using hv b ok by (simp split: prod.splits)
qed

subsection \<open>Atomicity of the write\<close>



subsection \<open>A valid submission\<close>



subsection \<open>Validation\<close>

text \<open>
  C3. A POST whose body is an object with no answers, that is, where every member bound
  to the field \<^verbatim>\<open>answers\<close> is the empty array or null (none at all when the member is
  absent), is answered with status 400, and the server is left as it was: no row is
  created and no call to the database is made.
\<close>

theorem no_answers_rejected:
  assumes r: "Method r = ''POST''" and b: "Body r = Some (JObject kvs)"
    and a: "\<forall>(k, v) \<in> set kvs.
              lookupField checklistFields k = Some F_answers \<longrightarrow> v = JArray [] \<or> v = JNull"
  shows "status (fst (checklistHandler e s r)) = 400 \<and> snd (checklistHandler e s r) = s"
proof (cases "Decode (Body r)")
  case (Inl err)
  then show ?thesis using r by (simp add: checklistHandler_def httpError_def)
next
  case (Inr c)
  then have "decodeChecklistMembers zeroChecklist kvs = Inr c"
    using b by (simp add: Decode_def)
  moreover have "Answers zeroChecklist = []" by (simp add: zeroChecklist_def)
  ultimately have "Answers c = []"
    using decodeChecklistMembers_no_answers a by blast
  then show ?thesis using r Inr by (simp add: checklistHandler_def httpError_def)
qed

theorem no_answers_rejected_witness:
  "Method (post no_answers_payload) = ''POST'' \<and>
   status (fst (checklistHandler sample_env empty_server (post no_answers_payload))) = 400 \<and>
   snd (checklistHandler sample_env empty_server (post no_answers_payload)) = empty_server \<and>
   status (fst (checklistHandler sample_env empty_server
                  (post (JObject [(''childName'', JString ''A'')])))) = 400 \<and>
   snd (checklistHandler sample_env empty_server
          (post (JObject [(''childName'', JString ''A'')]))) = empty_server"
proof -
  have r: "Method (post j) = ''POST''" for j by (simp add: post_def)
  have b1: "Body (post no_answers_payload) =
      Some (JObject [(''childName'', JString ''A''), (''answers'', JArray [])])"
    by (simp add: post_def no_answers_payload_def)
  have a1: "\<forall>(k, v) \<in> set [(''childName'', JString ''A''), (''answers'', JArray [])].
              lookupField checklistFields k = Some F_answers \<longrightarrow> v = JArray [] \<or> v = JNull"
    by (simp add: lookupField_def checklistFields_def)
  have b2: "Body (post (JObject [(''childName'', JString ''A'')])) =
      Some (JObject [(''childName'', JString ''A'')])"
    by (simp add: post_def)
  have a2: "\<forall>(k, v) \<in> set [(''childName'', JString ''A'')].
              lookupField checklistFields k = Some F_answers \<longrightarrow> v = JArray [] \<or> v = JNull"
    by (simp add: lookupField_def checklistFields_def)
  show ?thesis
    using no_answers_rejected [OF r b1 a1, of sample_env empty_server]
      no_answers_rejected [OF r b2 a2, of sample_env empty_server] r
    by simp
qed

lemma Truncate_day:
  "abs_ns (Truncate (Now e k) (24 * Hour)) mod (24 * Hour) = 0 \<and>
   abs_ns (Truncate (Now e k) (24 * Hour)) \<le> clock e k \<and>
   clock e k < abs_ns (Truncate (Now e k) (24 * Hour)) + 24 * Hour \<and>
   loc (Truncate (Now e k) (24 * Hour)) = Local"
proof -
  have pos: "0 < 24 * Hour" by (simp add: Hour_def)
  have t: "abs_ns (Truncate (Now e k) (24 * Hour)) = clock e k - clock e k mod (24 * Hour)"
    and l: "loc (Truncate (Now e k) (24 * Hour)) = Local"
    using pos by (simp_all add: Truncate_def Now_def)
  have "(clock e k - clock e k mod (24 * Hour)) mod (24 * Hour) = 0"
    by (simp add: minus_mod_eq_mult_div)
  moreover have "0 \<le> clock e k mod (24 * Hour)" using pos by simp
  moreover have "clock e k mod (24 * Hour) < 24 * Hour" using pos by simp
  ultimately show ?thesis using t l by simp
qed

lemma normalizeDate_cases:
  "normalizeDate e d =
     (case d of
        None \<Rightarrow> Some (\<lparr>Time = Truncate (Now e 0) (24 * Hour), Valid = True\<rparr>, 1)
      | Some x \<Rightarrow>
          if TrimSpace x = [] then Some (\<lparr>Time = Truncate (Now e 0) (24 * Hour), Valid = True\<rparr>, 1)
          else
            (case Parse e ''2006-01-02'' (TrimSpace x) of
               Some t \<Rightarrow> Some (\<lparr>Time = t, Valid = True\<rparr>, 0)
             | None \<Rightarrow>
                 (case Parse e RFC3339 (TrimSpace x) of
                    Some t2 \<Rightarrow> Some (\<lparr>Time = t2, Valid = True\<rparr>, 0)
                  | None \<Rightarrow> None)))"
  by (cases d) (simp_all add: normalizeDate_def split: option.splits)

lemma handler_accepted:
  assumes r: "Method r = ''POST''" and d: "Decode (Body r) = Inr c"
    and ok: "status (fst (checklistHandler e s r)) = 201"
  shows "\<exists>date n. Answers c \<noteq> [] \<and> normalizeDate e (Date c) = Some (date, n) \<and>
            tables (snd (checklistHandler e s r)) =
              (checklists (store s) @
                 [\<lparr>id_col = checklists_id_seq (store s) + 1,
                   child_name = nullStringPtr (ChildName c), date_of_check = nullTime date,
                   specialist = nullStringPtr (Specialist c),
                   created_at = parseCreatedAt e n (CreatedAt c)\<rparr>],
               answers (store s) @
                 answerRows (checklists_id_seq (store s) + 1) (answers_id_seq (store s))
                   (Answers c))"
proof -
  obtain resp s' where h: "checklistHandler e s r = (resp, s')"
    by (cases "checklistHandler e s r")
  show ?thesis using handler_outcome [OF r d h] h ok by auto
qed

text \<open>
  C4. On a POST whose body decodes: a date that is present and not blank, and that
  \<^verbatim>\<open>time.Parse\<close> reads neither with the layout \<^verbatim>\<open>2006-01-02\<close> nor as RFC3339 (after
  trimming), is answered with status 400 and the server is left as it was. When the
  submission is accepted, the stored date is never NULL: it is the date read with the
  first layout, else the timestamp read with the second, and when the date is absent or
  blank it is the first reading of the clock rounded down to a whole number of days
  since the zero time, that is, the start of the current day in UTC, presented in the
  zone of the server.
\<close>

theorem date_normalisation:
  assumes r: "Method r = ''POST''" and d: "Decode (Body r) = Inr c"
  shows "(\<forall>x. Date c = Some x \<and> TrimSpace x \<noteq> [] \<and>
               Parse e ''2006-01-02'' (TrimSpace x) = None \<and>
               Parse e RFC3339 (TrimSpace x) = None \<longrightarrow>
               status (fst (checklistHandler e s r)) = 400 \<and>
               snd (checklistHandler e s r) = s) \<and>
         (status (fst (checklistHandler e s r)) = 201 \<longrightarrow>
            date_of_check (last (fst (tables (snd (checklistHandler e s r))))) =
              (case Date c of
                 None \<Rightarrow> Some (Truncate (Now e 0) (24 * Hour))
               | Some x \<Rightarrow>
                   if TrimSpace x = [] then Some (Truncate (Now e 0) (24 * Hour))
                   else
                     (case Parse e ''2006-01-02'' (TrimSpace x) of
                        Some t \<Rightarrow> Some t
                      | None \<Rightarrow> Parse e RFC3339 (TrimSpace x))) \<and>
            date_of_check (last (fst (tables (snd (checklistHandler e s r))))) \<noteq> None) \<and>
         abs_ns (Truncate (Now e 0) (24 * Hour)) mod (24 * Hour) = 0 \<and>
         abs_ns (Truncate (Now e 0) (24 * Hour)) \<le> clock e 0 \<and>
         clock e 0 < abs_ns (Truncate (Now e 0) (24 * Hour)) + 24 * Hour"
proof -
  have rejected: "status (fst (checklistHandler e s r)) = 400 \<and> snd (checklistHandler e s r) = s"
    if x: "Date c = Some x \<and> TrimSpace x \<noteq> [] \<and>
               Parse e ''2006-01-02'' (TrimSpace x) = None \<and>
               Parse e RFC3339 (TrimSpace x) = None" for x
  proof -
    have "normalizeDate e (Date c) = None" using x by (simp add: normalizeDate_cases)
    then show ?thesis using r d by (simp add: checklistHandler_def httpError_def)
  qed
  have accepted: "date_of_check (last (fst (tables (snd (checklistHandler e s r))))) =
              (case Date c of
                 None \<Rightarrow> Some (Truncate (Now e 0) (24 * Hour))
               | Some x \<Rightarrow>
                   if TrimSpace x = [] then Some (Truncate (Now e 0) (24 * Hour))
                   else
                     (case Parse e ''2006-01-02'' (TrimSpace x) of
                        Some t \<Rightarrow> Some t
                      | None \<Rightarrow> Parse e RFC3339 (TrimSpace x))) \<and>
            date_of_check (last (fst (tables (snd (checklistHandler e s r))))) \<noteq> None"
    if ok: "status (fst (checklistHandler e s r)) = 201"
  proof -
    obtain date n where nd: "normalizeDate e (Date c) = Some (date, n)"
      and t: "date_of_check (last (fst (tables (snd (checklistHandler e s r))))) = nullTime date"
      using handler_accepted [OF r d ok] by auto
    show ?thesis using nd unfolding t
      by (auto simp add: normalizeDate_cases nullTime_def split: option.splits if_splits)
  qed
  show ?thesis using rejected accepted Truncate_day [of e 0] by blast
qed


theorem date_normalisation_witness:
  "Method (post bad_date_payload) = ''POST'' \<and>
   status (fst (checklistHandler sample_env empty_server (post bad_date_payload))) = 400 \<and>
   snd (checklistHandler sample_env empty_server (post bad_date_payload)) = empty_server \<and>
   status (fst (checklistHandler sample_env empty_server (post example_payload))) = 201 \<and>
   date_of_check (last (fst (tables (snd (checklistHandler sample_env empty_server
     (post example_payload)))))) = Some \<lparr>abs_ns = 63840873600000000000, loc = Local\<rparr> \<and>
   status (fst (checklistHandler sample_env empty_server (post two_answers_payload))) = 201 \<and>
   date_of_check (last (fst (tables (snd (checklistHandler sample_env empty_server
     (post two_answers_payload)))))) = Some \<lparr>abs_ns = 63840873600000000000, loc = UTC\<rparr>"
proof -
  have r: "Method (post j) = ''POST''" for j by (simp add: post_def)
  have d1: "Decode (Body (post bad_date_payload)) =
      Inr \<lparr>ChildName = None, Date = Some ''not-a-date'', Specialist = None, CreatedAt = None,
           Answers = [\<lparr>Key = ''k1'', Label = [], Value = None, Comment = None\<rparr>]\<rparr>"
    by code_simp
  have x1: "TrimSpace ''not-a-date'' = ''not-a-date''" by code_simp
  have p1: "Parse sample_env ''2006-01-02'' ''not-a-date'' = None"
    "Parse sample_env RFC3339 ''not-a-date'' = None"
    by (simp_all add: sample_env_def RFC3339_def)
  have d2: "Decode (Body (post example_payload)) =
      Inr \<lparr>ChildName = Some ''A'', Date = None, Specialist = None, CreatedAt = None,
           Answers = [\<lparr>Key = ''k1'', Label = [], Value = Some ''yes'', Comment = None\<rparr>]\<rparr>"
    by code_simp
  have ok2: "status (fst (checklistHandler sample_env empty_server (post example_payload))) = 201"
    by code_simp
  have t2: "Truncate (Now sample_env 0) (24 * Hour) = \<lparr>abs_ns = 63840873600000000000, loc = Local\<rparr>"
    by (simp add: Truncate_def Now_def Hour_def sample_env_def)
  have d3: "Decode (Body (post two_answers_payload)) = Inr two_answers_checklist"
    by code_simp
  have ok3: "status (fst (checklistHandler sample_env empty_server (post two_answers_payload))) = 201"
    by code_simp
  have x3: "TrimSpace ''2024-01-15'' = ''2024-01-15''" by code_simp
  have p3: "Parse sample_env ''2006-01-02'' ''2024-01-15'' =
      Some \<lparr>abs_ns = 63840873600000000000, loc = UTC\<rparr>"
    by (simp add: sample_env_def)
  show ?thesis
    using date_normalisation [OF r d1, of sample_env empty_server]
      date_normalisation [OF r d2, of sample_env empty_server]
      date_normalisation [OF r d3, of sample_env empty_server]
      r x1 p1 ok2 t2 ok3 x3 p3
    by (simp add: two_answers_checklist_def)
qed

subsection \<open>The creation timestamp\<close>

text \<open>
  C5. A submission whose \<^verbatim>\<open>createdAt\<close> is present and is not read by \<^verbatim>\<open>time.Parse\<close>
  as RFC3339 is not rejected: when it is otherwise valid and no call to the database
  fails, it is answered with status 201 and the stored timestamp is the reading of the
  clock taken at that point, in UTC.
\<close>

theorem createdAt_leniency:
  assumes r: "Method r = ''POST''" and d: "Decode (Body r) = Inr c" and ne: "Answers c \<noteq> []"
    and nd: "normalizeDate e (Date c) = Some (date, n)"
    and nf: "noFailure e (length (Answers c))"
    and ca: "CreatedAt c = Some x" and bad: "Parse e RFC3339 x = None"
  shows "status (fst (checklistHandler e s r)) = 201 \<and>
         created_at (last (fst (tables (snd (checklistHandler e s r))))) = toUTC (Now e n)"
proof -
  have ok: "status (fst (checklistHandler e s r)) = 201"
    using handler_created [OF r d ne nd nf] .
  have "parseCreatedAt e n (CreatedAt c) = toUTC (Now e n)"
    using ca bad by (simp add: parseCreatedAt_def)
  then show ?thesis using handler_accepted [OF r d ok] nd ok by auto
qed

theorem createdAt_leniency_witness:
  "CreatedAt two_answers_checklist = Some ''garbage'' \<and>
   Parse sample_env RFC3339 ''garbage'' = None \<and>
   status (fst (checklistHandler sample_env empty_server (post two_answers_payload))) = 201 \<and>
   created_at (last (fst (tables (snd (checklistHandler sample_env empty_server
     (post two_answers_payload)))))) = \<lparr>abs_ns = 63840911400000000000, loc = UTC\<rparr>"
proof -
  have r: "Method (post two_answers_payload) = ''POST''" by (simp add: post_def)
  have d: "Decode (Body (post two_answers_payload)) = Inr two_answers_checklist"
    by code_simp
  have ne: "Answers two_answers_checklist \<noteq> []" by (simp add: two_answers_checklist_def)
  have nd: "normalizeDate sample_env (Date two_answers_checklist) =
      Some (\<lparr>Time = \<lparr>abs_ns = 63840873600000000000, loc = UTC\<rparr>, Valid = True\<rparr>, 0)"
    by code_simp
  have nf: "noFailure sample_env (length (Answers two_answers_checklist))"
    by (simp add: noFailure_def sample_env_def)
  have ca: "CreatedAt two_answers_checklist = Some ''garbage''"
    by (simp add: two_answers_checklist_def)
  have bad: "Parse sample_env RFC3339 ''garbage'' = None"
    by (simp add: sample_env_def RFC3339_def)
  have now: "toUTC (Now sample_env 0) = \<lparr>abs_ns = 63840911400000000000, loc = UTC\<rparr>"
    by (simp add: toUTC_def Now_def sample_env_def)
  show ?thesis
    using createdAt_leniency [OF r d ne nd nf ca bad, of empty_server] ca bad now by simp
qed

lemma Decode_unknown:
  assumes "Body r = Some (JObject kvs)" and "(k, v) \<in> set kvs"
    and "lookupField checklistFields k = None"
  shows "\<exists>err. Decode (Body r) = Inl err"
  using assms decodeChecklistMembers_unknown [of k v kvs zeroChecklist]
  by (simp add: Decode_def)

text \<open>
  C6. A POST whose body is an object with a member that matches no field of the
  payload, or whose body does not decode into the payload at all, is answered with
  status 400, and the server is left as it was: no call to the database is made.
\<close>

theorem malformed_payload_rejected:
  assumes r: "Method r = ''POST''"
    and bad: "(\<exists>kvs k v. Body r = Some (JObject kvs) \<and> (k, v) \<in> set kvs \<and>
                 lookupField checklistFields k = None) \<or>
              (\<exists>err. Decode (Body r) = Inl err)"
  shows "status (fst (checklistHandler e s r)) = 400 \<and> snd (checklistHandler e s r) = s"
proof -
  obtain err where "Decode (Body r) = Inl err"
    using bad Decode_unknown by blast
  then show ?thesis using r by (simp add: checklistHandler_def httpError_def)
qed

theorem malformed_payload_rejected_witness:
  "Method (post unknown_field_payload) = ''POST'' \<and>
   (''foo'', JNumber ''1'') \<in> set [(''foo'', JNumber ''1''), (''childName'', JString ''A''),
      (''answers'', JArray [JObject [(''key'', JString ''k1''), (''value'', JString ''yes'')]])] \<and>
   lookupField checklistFields ''foo'' = None \<and>
   status (fst (checklistHandler sample_env empty_server (post unknown_field_payload))) = 400 \<and>
   snd (checklistHandler sample_env empty_server (post unknown_field_payload)) = empty_server \<and>
   Decode (Body (post (JArray []))) = Inl UnmarshalTypeError \<and>
   status (fst (checklistHandler sample_env empty_server (post (JArray [])))) = 400"
proof -
  have r: "Method (post j) = ''POST''" for j by (simp add: post_def)
  have b: "Body (post unknown_field_payload) =
      Some (JObject [(''foo'', JNumber ''1''), (''childName'', JString ''A''),
      (''answers'', JArray [JObject [(''key'', JString ''k1''), (''value'', JString ''yes'')]])])"
    by (simp add: post_def unknown_field_payload_def)
  have m: "(''foo'', JNumber ''1'') \<in> set [(''foo'', JNumber ''1''), (''childName'', JString ''A''),
      (''answers'', JArray [JObject [(''key'', JString ''k1''), (''value'', JString ''yes'')]])]"
    by simp
  have u: "lookupField checklistFields ''foo'' = None" by code_simp
  have h1: "(\<exists>kvs k v. Body (post unknown_field_payload) = Some (JObject kvs) \<and> (k, v) \<in> set kvs \<and>
                 lookupField checklistFields k = None) \<or>
              (\<exists>err. Decode (Body (post unknown_field_payload)) = Inl err)"
    using b m u by blast
  have d2: "Decode (Body (post (JArray []))) = Inl UnmarshalTypeError" by code_simp
  then have h2: "(\<exists>kvs k v. Body (post (JArray [])) = Some (JObject kvs) \<and> (k, v) \<in> set kvs \<and>
                 lookupField checklistFields k = None) \<or>
              (\<exists>err. Decode (Body (post (JArray []))) = Inl err)"
    by blast
  show ?thesis
    using malformed_payload_rejected [OF r h1, of sample_env empty_server]
      malformed_payload_rejected [OF r h2, of sample_env empty_server] r m u d2
    by simp
qed

subsection \<open>The example of the specification\<close>

text \<open>
  C7. The example of the specification,
  \<^verbatim>\<open>{"childName":"A","answers":[{"key":"k1","value":"yes"}]}\<close>, as it is stated: the
  answer row with label NULL. The handler stores the empty string there, since
  \<^verbatim>\<open>Label\<close> is a \<^verbatim>\<open>string\<close> and not a \<^verbatim>\<open>*string\<close>.
\<close>

theorem example_scenario_counterexample:
  "map answer_columns (snd (tables (snd (checklistHandler sample_env empty_server
      (post example_payload))))) = [(''k1'', Some [], Some ''yes'', None)] \<and>
   \<not> (status (fst (checklistHandler sample_env empty_server (post example_payload))) = 201 \<and>
      map child_name (fst (tables (snd (checklistHandler sample_env empty_server
        (post example_payload))))) = [Some ''A''] \<and>
      map answer_columns (snd (tables (snd (checklistHandler sample_env empty_server
        (post example_payload))))) = [(''k1'', None, Some ''yes'', None)])"
proof -
  have "map answer_columns (snd (tables (snd (checklistHandler sample_env empty_server
      (post example_payload))))) = [(''k1'', Some [], Some ''yes'', None)]"
    by code_simp
  then show ?thesis by simp
qed

text \<open>
  C7, amended. For the example payload, when no call to the database fails: status 201
  with the identifier of the parent row; one parent row with the name \<open>A\<close>, the start of
  the current day as its date, no specialist and the second reading of the clock as its
  creation time; one answer row of that parent with key \<open>k1\<close>, value \<open>yes\<close>, the empty
  string as label and NULL as comment.
\<close>

theorem example_scenario:
  assumes nf: "noFailure e 1"
  shows "fst (checklistHandler e s (post example_payload)) =
           \<lparr>status = 201, content_type = ''application/json'',
            payload = IdObject (checklists_id_seq (store s) + 1)\<rparr> \<and>
         tables (snd (checklistHandler e s (post example_payload))) =
           (checklists (store s) @
              [\<lparr>id_col = checklists_id_seq (store s) + 1, child_name = Some ''A'',
                date_of_check = Some (Truncate (Now e 0) (24 * Hour)), specialist = None,
                created_at = toUTC (Now e 1)\<rparr>],
            answers (store s) @
              [\<lparr>answer_id = answers_id_seq (store s) + 1,
                checklist_id = checklists_id_seq (store s) + 1, key_name = ''k1'',
                label = Some [], value_col = Some ''yes'', comment = None\<rparr>])"
proof -
  let ?c = "\<lparr>ChildName = Some ''A'', Date = None, Specialist = None, CreatedAt = None,
           Answers = [\<lparr>Key = ''k1'', Label = [], Value = Some ''yes'', Comment = None\<rparr>]\<rparr>"
  have r: "Method (post example_payload) = ''POST''" by (simp add: post_def)
  have d: "Decode (Body (post example_payload)) = Inr ?c"
    by code_simp
  have ne: "Answers ?c \<noteq> []" by simp
  have nd: "normalizeDate e (Date ?c) =
      Some (\<lparr>Time = Truncate (Now e 0) (24 * Hour), Valid = True\<rparr>, 1)"
    by (simp add: normalizeDate_def)
  have nf': "noFailure e (length (Answers ?c))" using nf by simp
  have ok: "status (fst (checklistHandler e s (post example_payload))) = 201"
    using handler_created [OF r d ne nd nf'] .
  obtain resp s' where h: "checklistHandler e s (post example_payload) = (resp, s')"
    by (cases "checklistHandler e s (post example_payload)")
  have tr: "TrimSpace ''A'' = ''A''" by code_simp
  show ?thesis
    using handler_outcome [OF r d h] h ok nd tr
    by (auto simp add: nullStringPtr_def nullTime_def parseCreatedAt_def)
qed

theorem example_scenario_witness:
  "noFailure sample_env 1 \<and>
   fst (checklistHandler sample_env empty_server (post example_payload)) =
     \<lparr>status = 201, content_type = ''application/json'', payload = IdObject 1\<rparr> \<and>
   tables (snd (checklistHandler sample_env empty_server (post example_payload))) =
     ([\<lparr>id_col = 1, child_name = Some ''A'',
        date_of_check = Some \<lparr>abs_ns = 63840873600000000000, loc = Local\<rparr>,
        specialist = None,
        created_at = \<lparr>abs_ns = 63840911400000000001, loc = UTC\<rparr>\<rparr>],
      [\<lparr>answer_id = 1, checklist_id = 1, key_name = ''k1'', label = Some [],
        value_col = Some ''yes'', comment = None\<rparr>])"
proof -
  have nf: "noFailure sample_env 1" by (simp add: noFailure_def sample_env_def)
  have t: "Truncate (Now sample_env 0) (24 * Hour) = \<lparr>abs_ns = 63840873600000000000, loc = Local\<rparr>"
    by (simp add: Truncate_def Now_def Hour_def sample_env_def)
  have n: "toUTC (Now sample_env 1) = \<lparr>abs_ns = 63840911400000000001, loc = UTC\<rparr>"
    by (simp add: toUTC_def Now_def sample_env_def)
  have s: "checklists (store empty_server) = []" "answers (store empty_server) = []"
    "checklists_id_seq (store empty_server) = 0" "answers_id_seq (store empty_server) = 0"
    by (simp_all add: empty_server_def)
  show ?thesis
    using example_scenario [OF nf, of empty_server] nf unfolding s t n by simp
qed

subsection \<open>The stored fields\<close>

lemma nullStringPtr_not_empty: "nullStringPtr x \<noteq> Some []"
  by (simp add: nullStringPtr_def split: option.splits)

lemma nullStringPtr_trimmed:
  "nullStringPtr x = Some y \<Longrightarrow>
   leadingSpace unicodeSpaces y = 0 \<and> leadingSpace (map rev unicodeSpaces) (rev y) = 0"
  using TrimSpace_no_leading TrimSpace_no_trailing
  by (auto simp add: nullStringPtr_def split: option.splits if_splits)

text \<open>
  C8. In the parent row of an accepted submission, the name of the child and the
  specialist are the submitted strings with the white space of \<^verbatim>\<open>strings.TrimSpace\<close>
  removed at both ends: the stored text neither starts nor ends with a white-space rune.
  A field that is absent, or whose trimmed text is empty, is stored as NULL, never as
  the empty string.
\<close>

theorem text_fields_trimmed:
  assumes r: "Method r = ''POST''" and d: "Decode (Body r) = Inr c"
    and ok: "status (fst (checklistHandler e s r)) = 201"
  shows "child_name (last (fst (tables (snd (checklistHandler e s r))))) =
           (case ChildName c of
              None \<Rightarrow> None
            | Some x \<Rightarrow> if TrimSpace x = [] then None else Some (TrimSpace x)) \<and>
         specialist (last (fst (tables (snd (checklistHandler e s r))))) =
           (case Specialist c of
              None \<Rightarrow> None
            | Some x \<Rightarrow> if TrimSpace x = [] then None else Some (TrimSpace x)) \<and>
         child_name (last (fst (tables (snd (checklistHandler e s r))))) \<noteq> Some [] \<and>
         specialist (last (fst (tables (snd (checklistHandler e s r))))) \<noteq> Some [] \<and>
         (\<forall>y. child_name (last (fst (tables (snd (checklistHandler e s r))))) = Some y \<or>
              specialist (last (fst (tables (snd (checklistHandler e s r))))) = Some y \<longrightarrow>
              leadingSpace unicodeSpaces y = 0 \<and>
              leadingSpace (map rev unicodeSpaces) (rev y) = 0)"
proof -
  have cn: "child_name (last (fst (tables (snd (checklistHandler e s r))))) =
      nullStringPtr (ChildName c)"
    and sp: "specialist (last (fst (tables (snd (checklistHandler e s r))))) =
      nullStringPtr (Specialist c)"
    using handler_accepted [OF r d ok] by auto
  show ?thesis
    unfolding cn sp
    using nullStringPtr_not_empty nullStringPtr_trimmed
    by (auto simp add: nullStringPtr_def)
qed

theorem text_fields_trimmed_witness:
  "Method (post two_answers_payload) = ''POST'' \<and>
   Decode (Body (post two_answers_payload)) = Inr two_answers_checklist \<and>
   ChildName two_answers_checklist = Some ''  Ann  '' \<and>
   Specialist two_answers_checklist = Some ''   '' \<and>
   status (fst (checklistHandler sample_env empty_server (post two_answers_payload))) = 201 \<and>
   child_name (last (fst (tables (snd (checklistHandler sample_env empty_server
     (post two_answers_payload)))))) = Some ''Ann'' \<and>
   specialist (last (fst (tables (snd (checklistHandler sample_env empty_server
     (post two_answers_payload)))))) = None"
proof -
  have r: "Method (post two_answers_payload) = ''POST''" by (simp add: post_def)
  have d: "Decode (Body (post two_answers_payload)) = Inr two_answers_checklist"
    by code_simp
  have ok: "status (fst (checklistHandler sample_env empty_server (post two_answers_payload))) = 201"
    by code_simp
  have c: "ChildName two_answers_checklist = Some ''  Ann  ''"
    "Specialist two_answers_checklist = Some ''   ''"
    by (simp_all add: two_answers_checklist_def)
  have t: "TrimSpace ''  Ann  '' = ''Ann''" "TrimSpace ''   '' = []"
    by code_simp+
  show ?thesis
    using text_fields_trimmed [OF r d ok] r d ok c t by simp
qed

text \<open>
  C9. The parent row of an accepted submission always carries a creation timestamp:
  the one read from \<^verbatim>\<open>createdAt\<close> when that is present, not empty and read by
  \<^verbatim>\<open>time.Parse\<close> as RFC3339, and otherwise (absent, empty or unreadable) the reading
  of the clock, in UTC. The column is a \<^verbatim>\<open>time.Time\<close>, which has no null.
\<close>

theorem createdAt_always_set:
  assumes r: "Method r = ''POST''" and d: "Decode (Body r) = Inr c"
    and ok: "status (fst (checklistHandler e s r)) = 201"
  shows "\<exists>date n.
           normalizeDate e (Date c) = Some (date, n) \<and>
           length (fst (tables (snd (checklistHandler e s r)))) =
             Suc (length (fst (tables s))) \<and>
           created_at (last (fst (tables (snd (checklistHandler e s r))))) =
             (case CreatedAt c of
                None \<Rightarrow> toUTC (Now e n)
              | Some x \<Rightarrow>
                  if x = [] then toUTC (Now e n)
                  else (case Parse e RFC3339 x of Some t \<Rightarrow> t | None \<Rightarrow> toUTC (Now e n)))"
proof -
  obtain date n where nd: "normalizeDate e (Date c) = Some (date, n)"
    and t: "tables (snd (checklistHandler e s r)) =
              (checklists (store s) @
                 [\<lparr>id_col = checklists_id_seq (store s) + 1,
                   child_name = nullStringPtr (ChildName c), date_of_check = nullTime date,
                   specialist = nullStringPtr (Specialist c),
                   created_at = parseCreatedAt e n (CreatedAt c)\<rparr>],
               answers (store s) @
                 answerRows (checklists_id_seq (store s) + 1) (answers_id_seq (store s))
                   (Answers c))"
    using handler_accepted [OF r d ok] by auto
  have "parseCreatedAt e n (CreatedAt c) =
             (case CreatedAt c of
                None \<Rightarrow> toUTC (Now e n)
              | Some x \<Rightarrow>
                  if x = [] then toUTC (Now e n)
                  else (case Parse e RFC3339 x of Some t \<Rightarrow> t | None \<Rightarrow> toUTC (Now e n)))"
    by (cases "CreatedAt c") (simp_all add: parseCreatedAt_def)
  then show ?thesis using nd t by (simp add: tables_def)
qed

theorem createdAt_always_set_witness:
  "status (fst (checklistHandler sample_env empty_server (post example_payload))) = 201 \<and>
   created_at (last (fst (tables (snd (checklistHandler sample_env empty_server
     (post example_payload)))))) = \<lparr>abs_ns = 63840911400000000001, loc = UTC\<rparr> \<and>
   status (fst (checklistHandler sample_env empty_server (post two_answers_payload))) = 201 \<and>
   created_at (last (fst (tables (snd (checklistHandler sample_env empty_server
     (post two_answers_payload)))))) = \<lparr>abs_ns = 63840911400000000000, loc = UTC\<rparr> \<and>
   status (fst (checklistHandler sample_env empty_server (post timestamped_payload))) = 201 \<and>
   created_at (last (fst (tables (snd (checklistHandler sample_env empty_server
     (post timestamped_payload)))))) = \<lparr>abs_ns = 63840911400000000000, loc = UTC\<rparr>"
proof -
  have r: "Method (post j) = ''POST''" for j by (simp add: post_def)
  have d1: "Decode (Body (post example_payload)) =
      Inr \<lparr>ChildName = Some ''A'', Date = None, Specialist = None, CreatedAt = None,
           Answers = [\<lparr>Key = ''k1'', Label = [], Value = Some ''yes'', Comment = None\<rparr>]\<rparr>"
    by code_simp
  have ok1: "status (fst (checklistHandler sample_env empty_server (post example_payload))) = 201"
    by code_simp
  have nd1: "normalizeDate sample_env None =
      Some (\<lparr>Time = Truncate (Now sample_env 0) (24 * Hour), Valid = True\<rparr>, 1)"
    by (simp add: normalizeDate_def)
  have d2: "Decode (Body (post two_answers_payload)) = Inr two_answers_checklist"
    by code_simp
  have ok2: "status (fst (checklistHandler sample_env empty_server (post two_answers_payload))) = 201"
    by code_simp
  have nd2: "normalizeDate sample_env (Date two_answers_checklist) =
      Some (\<lparr>Time = \<lparr>abs_ns = 63840873600000000000, loc = UTC\<rparr>, Valid = True\<rparr>, 0)"
    by code_simp
  have c2: "CreatedAt two_answers_checklist = Some ''garbage''"
    by (simp add: two_answers_checklist_def)
  have d3: "Decode (Body (post timestamped_payload)) =
      Inr \<lparr>ChildName = None, Date = Some ''2024-01-15'', Specialist = None,
           CreatedAt = Some ''2024-01-15T10:30:00Z'',
           Answers = [\<lparr>Key = ''k1'', Label = [], Value = None, Comment = None\<rparr>]\<rparr>"
    by code_simp
  have ok3: "status (fst (checklistHandler sample_env empty_server (post timestamped_payload))) = 201"
    by code_simp
  have nd3: "normalizeDate sample_env (Some ''2024-01-15'') =
      Some (\<lparr>Time = \<lparr>abs_ns = 63840873600000000000, loc = UTC\<rparr>, Valid = True\<rparr>, 0)"
    by code_simp
  have p: "Parse sample_env RFC3339 ''garbage'' = None"
    "Parse sample_env RFC3339 ''2024-01-15T10:30:00Z'' = Some \<lparr>abs_ns = 63840911400000000000, loc = UTC\<rparr>"
    by (simp_all add: sample_env_def RFC3339_def)
  have now: "toUTC (Now sample_env 0) = \<lparr>abs_ns = 63840911400000000000, loc = UTC\<rparr>"
    "toUTC (Now sample_env 1) = \<lparr>abs_ns = 63840911400000000001, loc = UTC\<rparr>"
    by (simp_all add: toUTC_def Now_def sample_env_def)
  show ?thesis
    using createdAt_always_set [OF r d1 ok1] createdAt_always_set [OF r d2 ok2]
      createdAt_always_set [OF r d3 ok3] ok1 ok2 ok3 nd1 nd2 nd3 c2 p now
    by auto
qed




end
